theory Spec2Isabelle
  imports Main "HOL-Library.Sublist" "HOL-Library.AList"
begin

section \<open>Data model of \<open>app/server.py\<close>\<close>

text \<open>
  The request handlers of \<open>app/server.py\<close> are embedded as functions over an explicit
  world: the state of the database behind the \<open>DatabaseManager\<close> and the list of the
  calls the handler has made on it, in order. \<open>logger\<close> calls write to the process log
  only and are left out.
\<close>

datatype py_value = PyNone | PyBool bool | PyInt int | PyStr string

text \<open>A result row, \<open>Dict[str, Any]\<close>: column name to value, in column order.\<close>

type_synonym row = "(string \<times> py_value) list"

text \<open>
  A Python exception is a value: the name of its class and the text \<open>str(e)\<close> gives.
  \<open>PyException\<close> is an instance of \<open>Exception\<close>, which \<open>except Exception\<close> catches;
  \<open>PyBaseException\<close> is an instance of \<open>BaseException\<close> only (\<open>asyncio.CancelledError\<close>,
  \<open>KeyboardInterrupt\<close>, \<open>SystemExit\<close>), which it does not catch.
\<close>

datatype py_exception =
  is_Exception: PyException (exc_class: string) (exc_str: string)
  | PyBaseException (exc_class: string) (exc_str: string)

text \<open>
  What leaves a handler when it raises: \<open>fastapi.HTTPException(status_code=..., detail=...)\<close>,
  or an exception that no \<open>except\<close> clause of the handler catches and that propagates
  as it is.
\<close>

datatype raised = HTTPException (status_code: int) (detail: string) | Unhandled py_exception

text \<open>
  \<open>except Exception as e: raise HTTPException(status_code=500, detail=f"<msg>{str(e)}")\<close>,
  the clause that ends the \<open>try\<close> of every handler.
\<close>

definition except_Exception :: "string \<Rightarrow> py_exception \<Rightarrow> raised" where
  "except_Exception msg e =
     (if is_Exception e then HTTPException 500 (msg @ exc_str e) else Unhandled e)"

text \<open>The entries of \<open>db_manager.list_tables()\<close>, read as \<open>table["table_name"]\<close>.\<close>

record table_entry =
  entry_table_name :: string
  entry_column_count :: int

text \<open>\<open>class ColumnInfo(BaseModel)\<close>; \<open>db_manager.describe_table\<close> gives the same keys.\<close>

record ColumnInfo =
  column_name :: string
  data_type :: string
  is_nullable :: bool

text \<open>\<open>class TableSchema(BaseModel)\<close>.\<close>

record TableSchema =
  table_name :: string
  columns :: "ColumnInfo list"

text \<open>\<open>class QueryRequest(BaseModel)\<close>: \<open>limit: Optional[int] = 50\<close>.\<close>

record QueryRequest =
  nl_query :: string
  limit :: "int option"

text \<open>\<open>class QueryResponse(BaseModel)\<close>.\<close>

record QueryResponse =
  sql_query :: string
  results :: "row list"
  row_count :: int

text \<open>The dictionary \<open>get_table_sample\<close> returns.\<close>

record TableSample =
  sample_table_name :: string
  sample_data :: "row list"
  sample_row_count :: int

text \<open>
  \<open>table_schemas\<close>, a Python \<open>dict\<close>: keys in insertion order, a repeated key keeps its
  place and takes the new value (\<open>AList.update\<close>).
\<close>

type_synonym table_schemas = "(string \<times> ColumnInfo list) list"

subsection \<open>The collaborators\<close>

text \<open>
  \<open>DatabaseManager\<close> (\<open>app/db.py\<close>) reaches the handlers through \<open>Depends(get_db_manager)\<close>.
  Its three coroutines are parameters of the model: each takes the database state and
  returns rows or raises, with the state after the call.
\<close>

record 'db DatabaseManager =
  dm_list_tables :: "'db \<Rightarrow> (py_exception + table_entry list) \<times> 'db"
  dm_describe_table :: "string \<Rightarrow> 'db \<Rightarrow> (py_exception + ColumnInfo list) \<times> 'db"
  dm_execute_safe_query :: "string \<Rightarrow> int option \<Rightarrow> 'db \<Rightarrow> (py_exception + row list) \<times> 'db"

text \<open>
  Modelled from the spec: \<open>NLToSQLConverter\<close> (\<open>app/nl_to_sql.py\<close>) is not among the
  sources. The spec gives its contract only,
  \<open>convertToSQL(nlQuery, schema) -> SynthesizedQuery\<close>, deterministic given identical
  schema and input and failing with a typed error; so \<open>convert_to_sql\<close> is a function of
  the request text and the schema snapshot that returns the SQL text or raises.
\<close>

record NLToSQLConverter =
  convert_to_sql :: "string \<Rightarrow> table_schemas \<Rightarrow> py_exception + string"

text \<open>The calls a handler makes on the \<open>DatabaseManager\<close>, with their arguments.\<close>

datatype db_call =
  ListTables
  | DescribeTable string
  | ExecuteSafeQuery string "int option"

type_synonym 'db world = "'db \<times> db_call list"

definition await_list_tables ::
  "'db DatabaseManager \<Rightarrow> 'db world \<Rightarrow> (py_exception + table_entry list) \<times> 'db world" where
  "await_list_tables dbm w =
     (case dm_list_tables dbm (fst w) of
        (r, d) \<Rightarrow> (r, (d, snd w @ [ListTables])))"

definition await_describe_table ::
  "'db DatabaseManager \<Rightarrow> string \<Rightarrow> 'db world \<Rightarrow> (py_exception + ColumnInfo list) \<times> 'db world" where
  "await_describe_table dbm name w =
     (case dm_describe_table dbm name (fst w) of
        (r, d) \<Rightarrow> (r, (d, snd w @ [DescribeTable name])))"

definition await_execute_safe_query ::
  "'db DatabaseManager \<Rightarrow> string \<Rightarrow> int option \<Rightarrow> 'db world \<Rightarrow> (py_exception + row list) \<times> 'db world" where
  "await_execute_safe_query dbm sql lim w =
     (case dm_execute_safe_query dbm sql lim (fst w) of
        (r, d) \<Rightarrow> (r, (d, snd w @ [ExecuteSafeQuery sql lim])))"

subsection \<open>Python's \<open>str\<close> of an \<open>int\<close>, as an f-string formats it\<close>

definition digit_char :: "nat \<Rightarrow> char" where
  "digit_char n = ''0123456789'' ! (n mod 10)"

fun str_nat :: "nat \<Rightarrow> string" where
  "str_nat n = (if n < 10 then [digit_char n] else str_nat (n div 10) @ [digit_char n])"

definition str_int :: "int \<Rightarrow> string" where
  "str_int i = (if i < 0 then CHR ''-'' # str_nat (nat (- i)) else str_nat (nat i))"

section \<open>The handlers\<close>

subsection \<open>\<open>GET /mcp/describe/{table_name}\<close>\<close>

definition describe_table ::
  "'db DatabaseManager \<Rightarrow> string \<Rightarrow> 'db world \<Rightarrow> (raised + TableSchema) \<times> 'db world" where
  "describe_table dbm name w =
     (case await_describe_table dbm name w of
        (Inr schema, w') \<Rightarrow> (Inr \<lparr>table_name = name, columns = schema\<rparr>, w')
      | (Inl e, w') \<Rightarrow> (Inl (except_Exception ''Failed to describe table: '' e), w'))"

subsection \<open>\<open>POST /mcp/query\<close>\<close>

text \<open>The loop \<open>for table in tables\<close> that fills \<open>table_schemas\<close>; a raise ends it.\<close>

fun describe_each ::
  "'db DatabaseManager \<Rightarrow> table_entry list \<Rightarrow> table_schemas \<Rightarrow> 'db world
     \<Rightarrow> (py_exception + table_schemas) \<times> 'db world" where
  "describe_each dbm [] acc w = (Inr acc, w)"
| "describe_each dbm (t # ts) acc w =
     (case await_describe_table dbm (entry_table_name t) w of
        (Inl e, w') \<Rightarrow> (Inl e, w')
      | (Inr schema, w') \<Rightarrow>
          describe_each dbm ts (AList.update (entry_table_name t) schema acc) w')"

text \<open>The first statements of the \<open>try\<close> block: the schema snapshot.\<close>

definition fetch_table_schemas ::
  "'db DatabaseManager \<Rightarrow> 'db world \<Rightarrow> (py_exception + table_schemas) \<times> 'db world" where
  "fetch_table_schemas dbm w =
     (case await_list_tables dbm w of
        (Inl e, w1) \<Rightarrow> (Inl e, w1)
      | (Inr tables, w1) \<Rightarrow> describe_each dbm tables [] w1)"

text \<open>The body of the \<open>try\<close> block.\<close>

definition nl_query_body ::
  "NLToSQLConverter \<Rightarrow> 'db DatabaseManager \<Rightarrow> QueryRequest \<Rightarrow> 'db world
     \<Rightarrow> (py_exception + QueryResponse) \<times> 'db world" where
  "nl_query_body conv dbm request w =
     (case fetch_table_schemas dbm w of
        (Inl e, w2) \<Rightarrow> (Inl e, w2)
      | (Inr schemas, w2) \<Rightarrow>
          (case convert_to_sql conv (nl_query request) schemas of
             Inl e \<Rightarrow> (Inl e, w2)
           | Inr sql \<Rightarrow>
               (case await_execute_safe_query dbm sql (limit request) w2 of
                  (Inl e, w3) \<Rightarrow> (Inl e, w3)
                | (Inr rows, w3) \<Rightarrow>
                    (Inr \<lparr>sql_query = sql, results = rows, row_count = int (length rows)\<rparr>,
                     w3))))"

text \<open>
  The handler. \<open>nl_converter\<close> is the module's global, \<open>None\<close> before start-up and when
  \<open>lifespan\<close> caught a failure of \<open>NLToSQLConverter()\<close>; \<open>not nl_converter\<close> is read as
  the test for \<open>None\<close>, an instance being true. The 503 is raised before the \<open>try\<close>,
  so nothing catches it; what the \<open>try\<close> raises goes through \<open>except Exception\<close>.
\<close>

definition execute_nl_query ::
  "NLToSQLConverter option \<Rightarrow> 'db DatabaseManager \<Rightarrow> QueryRequest \<Rightarrow> 'db world
     \<Rightarrow> (raised + QueryResponse) \<times> 'db world" where
  "execute_nl_query nl_converter dbm request w =
     (case nl_converter of
        None \<Rightarrow> (Inl (HTTPException 503 ''NL to SQL converter not available''), w)
      | Some conv \<Rightarrow>
          (case nl_query_body conv dbm request w of
             (Inr response, w') \<Rightarrow> (Inr response, w')
           | (Inl e, w') \<Rightarrow> (Inl (except_Exception ''Failed to execute query: '' e), w')))"

subsection \<open>\<open>GET /mcp/tables/{table_name}/sample\<close>\<close>

text \<open>\<open>f"SELECT * FROM {table_name} LIMIT {min(limit, 50)}"\<close>.\<close>

definition sample_query :: "string \<Rightarrow> int \<Rightarrow> string" where
  "sample_query name lim = ''SELECT * FROM '' @ name @ '' LIMIT '' @ str_int (min lim 50)"

definition get_table_sample ::
  "'db DatabaseManager \<Rightarrow> string \<Rightarrow> int \<Rightarrow> 'db world \<Rightarrow> (raised + TableSample) \<times> 'db world" where
  "get_table_sample dbm name lim w =
     (case await_execute_safe_query dbm (sample_query name lim) (Some (min lim 50)) w of
        (Inr rows, w') \<Rightarrow>
          (Inr \<lparr>sample_table_name = name, sample_data = rows,
                sample_row_count = int (length rows)\<rparr>, w')
      | (Inl e, w') \<Rightarrow> (Inl (except_Exception ''Failed to get table sample: '' e), w'))"

section \<open>The database side, from the specification\<close>

text \<open>
  \<open>app/db.py\<close> is not among the sources. What the properties need of it is modelled from
  the specification's sections 4.1, 4.3 and 6.
\<close>

text \<open>
  Modelled from the spec: the two primitives the core consumes from the database
  collaborator (section 6), a metadata query for the tables and their columns and the
  execution of raw SQL text, which returns rows or raises and may change the data.
\<close>

record 'd database =
  catalog :: "'d \<Rightarrow> py_exception + table_schemas"
  run_sql :: "string \<Rightarrow> 'd \<Rightarrow> (py_exception + row list) \<times> 'd"

text \<open>
  Modelled from the spec: what reaches the database. The state of a connection is the
  data and the requests made so far, in order.
\<close>

datatype db_request = MetadataQuery | Statement string

type_synonym 'd connection = "'d \<times> db_request list"

text \<open>
  Modelled from the spec: the letters of an SQL keyword count in either case, so the text
  is compared in upper case (ASCII letters).
\<close>

definition upper_char :: "char \<Rightarrow> char" where
  "upper_char c =
     (case map_of (zip ''abcdefghijklmnopqrstuvwxyz'' ''ABCDEFGHIJKLMNOPQRSTUVWXYZ'') c of
        Some u \<Rightarrow> u
      | None \<Rightarrow> c)"

text \<open>Modelled from the spec: the SQL text in upper case, for the comparison above.\<close>

definition sql_upper :: "string \<Rightarrow> string" where
  "sql_upper sql = map upper_char sql"

text \<open>
  Modelled from the spec: the DDL/DML verbs of section 4.3, rule 2. A statement is
  refused when its text contains one of them (section 8: "SQL containing DROP TABLE,
  DELETE FROM, or INSERT INTO").
\<close>

definition forbidden_verbs :: "string list" where
  "forbidden_verbs =
     [''INSERT'', ''UPDATE'', ''DELETE'', ''DROP'', ''ALTER'', ''TRUNCATE'', ''CREATE'']"

text \<open>
  Modelled from the spec: the test of section 4.3, rule 2, on the text of a statement:
  one of the verbs occurs in it, whatever the case of its letters.
\<close>

definition has_forbidden_verb :: "string \<Rightarrow> bool" where
  "has_forbidden_verb sql = list_ex (\<lambda>v. sublist v (sql_upper sql)) forbidden_verbs"

text \<open>
  Modelled from the spec: the whitespace of section 4.3, rule 1: space, tab, line feed and
  carriage return.
\<close>

definition is_space :: "char \<Rightarrow> bool" where
  "is_space c = (c = CHR '' '' \<or> c = CHR 0x09 \<or> c = CHR 0x0A \<or> c = CHR 0x0D)"

text \<open>
  Modelled from the spec: section 4.3, rule 1, "reject on \<open>;\<close> followed by
  non-whitespace": some \<open>;\<close> of the text has a character after it that is not
  whitespace.
\<close>

fun smuggles_statement :: "string \<Rightarrow> bool" where
  "smuggles_statement [] = False"
| "smuggles_statement (c # cs) =
     ((c = CHR '';'' \<and> list_ex (\<lambda>x. \<not> is_space x) cs) \<or> smuggles_statement cs)"

text \<open>
  Modelled from the spec: the limit of section 4.3, rule 3, \<open>min(requested_limit, 50)\<close>,
  and 50 (the default of \<open>NLQueryRequest\<close>) when the caller gave none.
\<close>

definition enforced_limit :: "int option \<Rightarrow> int" where
  "enforced_limit lim = (case lim of None \<Rightarrow> 50 | Some l \<Rightarrow> min l 50)"

text \<open>
  Modelled from the spec: \<open>executeSafeQuery\<close> of section 4.3 (\<open>execute_safe_query\<close> of
  \<open>app/db.py\<close>, absent from the sources). The statement is validated before anything is
  sent to the database: a forbidden verb raises \<open>ForbiddenOperationError\<close> (section 8 asks
  this of every text containing one), a second statement raises \<open>QueryRejectedError\<close>.
  Then the statement runs under the enforced limit; the limit clause is modelled by its
  effect, at most that many rows come back. A failure of the database is raised as
  \<open>ExecutionError\<close> with a fixed text.
\<close>

definition execute_safe_query_spec ::
  "'d database \<Rightarrow> string \<Rightarrow> int option \<Rightarrow> 'd connection
     \<Rightarrow> (py_exception + row list) \<times> 'd connection" where
  "execute_safe_query_spec raw sql lim c =
     (if has_forbidden_verb sql then
        (Inl (PyException ''ForbiddenOperationError'' ''statement is not read-only''), c)
      else if smuggles_statement sql then
        (Inl (PyException ''QueryRejectedError'' ''more than one statement''), c)
      else
        (case run_sql raw sql (fst c) of
           (Inl e, d) \<Rightarrow>
             (Inl (PyException ''ExecutionError'' ''query execution failed''),
              (d, snd c @ [Statement sql]))
         | (Inr rows, d) \<Rightarrow>
             (Inr (take (nat (enforced_limit lim)) rows), (d, snd c @ [Statement sql]))))"

text \<open>
  Modelled from the spec: \<open>listTables\<close> of section 4.1 (\<open>list_tables\<close> of \<open>app/db.py\<close>,
  absent from the sources): a read-only metadata query that gives every table with the
  number of its columns; a failure of the query is \<open>IntrospectionError\<close>.
\<close>

definition list_tables_spec ::
  "'d database \<Rightarrow> 'd connection \<Rightarrow> (py_exception + table_entry list) \<times> 'd connection" where
  "list_tables_spec raw c =
     (case catalog raw (fst c) of
        Inl e \<Rightarrow>
          (Inl (PyException ''IntrospectionError'' ''metadata query failed''),
           (fst c, snd c @ [MetadataQuery]))
      | Inr schemas \<Rightarrow>
          (Inr (map (\<lambda>(name, cols).
                  \<lparr>entry_table_name = name, entry_column_count = int (length cols)\<rparr>) schemas),
           (fst c, snd c @ [MetadataQuery])))"

text \<open>
  Modelled from the spec: \<open>describeTable\<close> of section 4.1 (\<open>describe_table\<close> of
  \<open>app/db.py\<close>, absent from the sources): the columns of the table in their order, and
  \<open>TableNotFoundError\<close> for a name the catalog does not have.
\<close>

definition describe_table_spec ::
  "'d database \<Rightarrow> string \<Rightarrow> 'd connection \<Rightarrow> (py_exception + ColumnInfo list) \<times> 'd connection" where
  "describe_table_spec raw name c =
     (case catalog raw (fst c) of
        Inl e \<Rightarrow>
          (Inl (PyException ''IntrospectionError'' ''metadata query failed''),
           (fst c, snd c @ [MetadataQuery]))
      | Inr schemas \<Rightarrow>
          (case map_of schemas name of
             None \<Rightarrow>
               (Inl (PyException ''TableNotFoundError'' (''table not found: '' @ name)),
                (fst c, snd c @ [MetadataQuery]))
           | Some cols \<Rightarrow> (Inr cols, (fst c, snd c @ [MetadataQuery]))))"

text \<open>
  Modelled from the spec: the \<open>DatabaseManager\<close> (\<open>app/db.py\<close>, absent from the sources)
  made of the three operations above.
\<close>

definition spec_db_manager :: "'d database \<Rightarrow> 'd connection DatabaseManager" where
  "spec_db_manager raw =
     \<lparr>dm_list_tables = list_tables_spec raw,
      dm_describe_table = describe_table_spec raw,
      dm_execute_safe_query = execute_safe_query_spec raw\<rparr>"

text \<open>
  Modelled from the spec: a converter (\<open>app/nl_to_sql.py\<close> is absent from the sources) that
  answers every request with the conservative default of section 4.2,
  \<open>SELECT * FROM <first table> LIMIT <default>\<close>, and fails with \<open>EmptySchemaError\<close> on a
  schema without tables.
\<close>

definition conservative_converter :: NLToSQLConverter where
  "conservative_converter =
     \<lparr>convert_to_sql = (\<lambda>q schemas.
        case schemas of
          [] \<Rightarrow> Inl (PyException ''EmptySchemaError'' ''schema has no tables'')
        | (name, cols) # rest \<Rightarrow> Inr (''SELECT * FROM '' @ name @ '' LIMIT 50''))\<rparr>"

subsection \<open>A database for the examples\<close>

text \<open>
  Tables as name, columns and rows. A statement returns all the rows of the first table
  whose name follows \<open>FROM\<close> in its text, and fails where there is none.
\<close>

type_synonym tables = "(string \<times> ColumnInfo list \<times> row list) list"

definition tables_database :: "tables database" where
  "tables_database =
     \<lparr>catalog = (\<lambda>d. Inr (map (\<lambda>(name, cols, rows). (name, cols)) d)),
      run_sql = (\<lambda>sql d.
        case find (\<lambda>(name, cols, rows). sublist (''FROM '' @ name) sql) d of
          None \<Rightarrow> (Inl (PyException ''UndefinedTableError'' ''relation does not exist''), d)
        | Some (name, cols, rows) \<Rightarrow> (Inr rows, d))\<rparr>"

definition users_columns :: "ColumnInfo list" where
  "users_columns =
     [\<lparr>column_name = ''id'', data_type = ''integer'', is_nullable = False\<rparr>,
      \<lparr>column_name = ''name'', data_type = ''text'', is_nullable = True\<rparr>]"

definition users_tables :: tables where
  "users_tables =
     [(''users'', users_columns,
       [[(''id'', PyInt 1), (''name'', PyStr ''ada'')],
        [(''id'', PyInt 2), (''name'', PyStr ''bob'')],
        [(''id'', PyInt 3), (''name'', PyNone)]])]"

text \<open>The same schema over other data.\<close>

definition users_tables_later :: tables where
  "users_tables_later =
     [(''users'', users_columns, [[(''id'', PyInt 7), (''name'', PyStr ''eve'')]])]"

text \<open>
  A \<open>DatabaseManager\<close> whose every call raises the given exception, as a driver does
  that cannot reach its server.
\<close>

definition raising_db_manager :: "py_exception \<Rightarrow> unit DatabaseManager" where
  "raising_db_manager e =
     \<lparr>dm_list_tables = (\<lambda>d. (Inl e, d)),
      dm_describe_table = (\<lambda>name d. (Inl e, d)),
      dm_execute_safe_query = (\<lambda>sql lim d. (Inl e, d))\<rparr>"

text \<open>A table of sixty rows, more than the cap.\<close>

definition numbers_tables :: tables where
  "numbers_tables =
     [(''numbers'', [\<lparr>column_name = ''n'', data_type = ''integer'', is_nullable = False\<rparr>],
       map (\<lambda>i. [(''n'', PyInt (int i))]) [0..<60])]"



subsection \<open>Reading the call log\<close>

text \<open>The \<open>execute_safe_query\<close> calls of a log: the SQL text and the limit of each.\<close>

fun executor_calls :: "db_call list \<Rightarrow> (string \<times> int option) list" where
  "executor_calls [] = []"
| "executor_calls (ExecuteSafeQuery sql lim # cs) = (sql, lim) # executor_calls cs"
| "executor_calls (c # cs) = executor_calls cs"

section \<open>Lemmas\<close>

subsection \<open>The digits of \<open>str_int\<close>\<close>

lemma digit_char_digit: "digit_char n \<in> set ''0123456789''"
proof -
  have "n mod 10 < length ''0123456789''" by simp
  then show ?thesis unfolding digit_char_def by (rule nth_mem)
qed

lemma str_nat_digits: "set (str_nat n) \<subseteq> set ''0123456789''"
proof (induction n rule: str_nat.induct)
  case (1 n)
  show ?case
  proof (cases "n < 10")
    case True
    then have "str_nat n = [digit_char n]" by simp
    then show ?thesis using digit_char_digit [of n] by simp
  next
    case False
    then have eq: "str_nat n = str_nat (n div 10) @ [digit_char n]" by simp
    show ?thesis using 1 [OF False] digit_char_digit [of n] unfolding eq by simp
  qed
qed

lemma semicolon_not_in_str_nat: "CHR '';'' \<notin> set (str_nat n)"
proof
  assume "CHR '';'' \<in> set (str_nat n)"
  with str_nat_digits [of n] have "CHR '';'' \<in> set ''0123456789''" by (rule subsetD)
  then show False by simp
qed

lemma semicolon_not_in_str_int: "CHR '';'' \<notin> set (str_int i)"
proof (cases "i < 0")
  case True
  then have "str_int i = CHR ''-'' # str_nat (nat (- i))" by (simp add: str_int_def)
  then show ?thesis using semicolon_not_in_str_nat [of "nat (- i)"] by simp
next
  case False
  then have "str_int i = str_nat (nat i)" by (simp add: str_int_def)
  then show ?thesis using semicolon_not_in_str_nat [of "nat i"] by simp
qed

subsection \<open>A second statement in the text\<close>

lemma smuggles_has_semicolon: "smuggles_statement s \<Longrightarrow> CHR '';'' \<in> set s"
  by (induction s) auto

lemma smuggles_prepend: "smuggles_statement s \<Longrightarrow> smuggles_statement (p @ s)"
  by (induction p) auto

lemma smuggles_append:
  "CHR '';'' \<in> set a \<Longrightarrow> \<exists>x \<in> set b. \<not> is_space x \<Longrightarrow> smuggles_statement (a @ b)"
  by (induction a) (auto simp: list_ex_iff)

lemma sample_query_smuggles: "smuggles_statement (sample_query name lim) \<longleftrightarrow> CHR '';'' \<in> set name"
proof
  assume "smuggles_statement (sample_query name lim)"
  then have "CHR '';'' \<in> set (sample_query name lim)" by (rule smuggles_has_semicolon)
  then show "CHR '';'' \<in> set name"
    using semicolon_not_in_str_int [of "min lim 50"] by (simp add: sample_query_def)
next
  assume semi: "CHR '';'' \<in> set name"
  have "\<exists>x \<in> set ('' LIMIT '' @ str_int (min lim 50)). \<not> is_space x"
    by (rule bexI [of _ "CHR ''L''"]) (simp_all add: is_space_def)
  with semi have "smuggles_statement (name @ '' LIMIT '' @ str_int (min lim 50))"
    by (rule smuggles_append)
  then have "smuggles_statement (''SELECT * FROM '' @ name @ '' LIMIT '' @ str_int (min lim 50))"
    by (rule smuggles_prepend)
  then show "smuggles_statement (sample_query name lim)" by (simp add: sample_query_def)
qed

subsection \<open>What the handlers call and return\<close>

lemma sample_calls:
  "snd (snd (get_table_sample dbm name lim (d, log))) =
     log @ [ExecuteSafeQuery (sample_query name lim) (Some (min lim 50))]"
  by (simp add: get_table_sample_def await_execute_safe_query_def split: prod.splits sum.splits)

lemma nl_query_calls:
  assumes "fetch_table_schemas dbm w = (Inr schemas, w2)"
    and "convert_to_sql conv (nl_query request) schemas = Inr sql"
  shows "snd (snd (execute_nl_query (Some conv) dbm request w)) =
     snd w2 @ [ExecuteSafeQuery sql (limit request)]"
  using assms
  by (simp add: execute_nl_query_def nl_query_body_def await_execute_safe_query_def
      split: prod.splits sum.splits)

lemma nl_query_success:
  assumes "execute_nl_query nl dbm request w = (Inr r, w')"
  shows "\<exists>conv schemas w2 rows d.
     nl = Some conv \<and> fetch_table_schemas dbm w = (Inr schemas, w2) \<and>
     convert_to_sql conv (nl_query request) schemas = Inr (sql_query r) \<and>
     dm_execute_safe_query dbm (sql_query r) (limit request) (fst w2) = (Inr rows, d) \<and>
     results r = rows \<and> row_count r = int (length rows)"
  using assms
  by (auto simp: execute_nl_query_def nl_query_body_def await_execute_safe_query_def
      split: option.splits prod.splits sum.splits)

lemma sample_success:
  assumes "get_table_sample dbm name lim w = (Inr s, w')"
  shows "\<exists>rows d.
     dm_execute_safe_query dbm (sample_query name lim) (Some (min lim 50)) (fst w) = (Inr rows, d) \<and>
     sample_data s = rows \<and> sample_row_count s = int (length rows)"
  using assms
  by (auto simp: get_table_sample_def await_execute_safe_query_def
      split: prod.splits sum.splits)

subsection \<open>What the executor and the introspector of the specification raise\<close>




subsection \<open>Forbidden verbs\<close>

lemma sublist_map_same: "sublist xs ys \<Longrightarrow> sublist (map f xs) (map f ys)"
proof -
  assume "sublist xs ys"
  then obtain ps ss where "ys = ps @ xs @ ss" by (auto simp: sublist_def)
  then have "map f ys = map f ps @ map f xs @ map f ss" by simp
  then show ?thesis unfolding sublist_def by blast
qed

lemma sublist_of_sublist: "sublist xs ys \<Longrightarrow> sublist ys zs \<Longrightarrow> sublist xs zs"
proof -
  assume "sublist xs ys" and "sublist ys zs"
  then obtain a b c d where "ys = a @ xs @ b" and "zs = c @ ys @ d"
    by (auto simp: sublist_def)
  then have "zs = (c @ a) @ xs @ (b @ d)" by simp
  then show ?thesis unfolding sublist_def by blast
qed

lemma upper_char_phrases:
  "map upper_char ''DROP TABLE'' = ''DROP TABLE''"
  "map upper_char ''DELETE FROM'' = ''DELETE FROM''"
  "map upper_char ''INSERT INTO'' = ''INSERT INTO''"
  by code_simp+

lemma phrase_in_upper:
  assumes "map upper_char p = p" and "sublist p sql \<or> sublist p (sql_upper sql)"
  shows "sublist p (sql_upper sql)"
  using assms sublist_map_same [of p sql upper_char] by (auto simp: sql_upper_def)

lemma verb_of_phrase:
  assumes "v \<in> set forbidden_verbs" and "sublist v p" and "sublist p (sql_upper sql)"
  shows "has_forbidden_verb sql"
proof -
  have "sublist v (sql_upper sql)"
    using assms(2,3) by (rule sublist_of_sublist)
  with assms(1) show ?thesis
    by (auto simp: has_forbidden_verb_def list_ex_iff)
qed

lemma forbidden_rejected:
  "has_forbidden_verb sql \<Longrightarrow>
   execute_safe_query_spec raw sql lim c =
     (Inl (PyException ''ForbiddenOperationError'' ''statement is not read-only''), c)"
  by (simp add: execute_safe_query_spec_def)

subsection \<open>Runs on the example database\<close>

lemma sample_injection_run:
  "get_table_sample (spec_db_manager tables_database) ''users; DROP TABLE users'' 5
     ((users_tables, []), []) =
   (Inl (HTTPException 500 ''Failed to get table sample: statement is not read-only''),
    ((users_tables, []),
     [ExecuteSafeQuery ''SELECT * FROM users; DROP TABLE users LIMIT 5'' (Some 5)]))"
  by code_simp

lemma sample_second_select_run:
  "get_table_sample (spec_db_manager tables_database) ''users; SELECT * FROM secrets'' 10
     ((users_tables, []), []) =
   (Inl (HTTPException 500 ''Failed to get table sample: more than one statement''),
    ((users_tables, []),
     [ExecuteSafeQuery ''SELECT * FROM users; SELECT * FROM secrets LIMIT 10'' (Some 10)]))"
  by code_simp

lemma smuggle_ex: "smuggles_statement ''SELECT * FROM users; SELECT * FROM secrets LIMIT 10''"
  by code_simp

lemma ghost_run:
  "describe_table (spec_db_manager tables_database) ''ghost'' ((users_tables, []), []) =
   (Inl (HTTPException 500 ''Failed to describe table: table not found: ghost''),
    ((users_tables, [MetadataQuery]), [DescribeTable ''ghost'']))"
  by code_simp

lemma numbers_run:
  "execute_nl_query (Some conservative_converter) (spec_db_manager tables_database)
     \<lparr>nl_query = ''show me all numbers'', limit = Some 10000\<rparr> ((numbers_tables, []), []) =
   (Inr \<lparr>sql_query = ''SELECT * FROM numbers LIMIT 50'',
         results = map (\<lambda>i. [(''n'', PyInt (int i))]) [0..<50],
         row_count = 50\<rparr>,
    ((numbers_tables, [MetadataQuery, MetadataQuery, Statement ''SELECT * FROM numbers LIMIT 50'']),
     [ListTables, DescribeTable ''numbers'',
      ExecuteSafeQuery ''SELECT * FROM numbers LIMIT 50'' (Some 10000)]))"
  by code_simp

lemma numbers_sample_run:
  "get_table_sample (spec_db_manager tables_database) ''numbers'' 10000
     ((numbers_tables, []), []) =
   (Inr \<lparr>sample_table_name = ''numbers'',
         sample_data = map (\<lambda>i. [(''n'', PyInt (int i))]) [0..<50],
         sample_row_count = 50\<rparr>,
    ((numbers_tables, [Statement ''SELECT * FROM numbers LIMIT 50'']),
     [ExecuteSafeQuery ''SELECT * FROM numbers LIMIT 50'' (Some 50)]))"
  by code_simp



lemma users_run:
  "execute_nl_query (Some conservative_converter) (spec_db_manager tables_database)
     \<lparr>nl_query = ''show me all users'', limit = Some 2\<rparr> ((users_tables, []), []) =
   (Inr \<lparr>sql_query = ''SELECT * FROM users LIMIT 50'',
         results = [[(''id'', PyInt 1), (''name'', PyStr ''ada'')],
                    [(''id'', PyInt 2), (''name'', PyStr ''bob'')]],
         row_count = 2\<rparr>,
    ((users_tables, [MetadataQuery, MetadataQuery, Statement ''SELECT * FROM users LIMIT 50'']),
     [ListTables, DescribeTable ''users'',
      ExecuteSafeQuery ''SELECT * FROM users LIMIT 50'' (Some 2)]))"
  by code_simp

lemma users_later_run:
  "execute_nl_query (Some conservative_converter) (spec_db_manager tables_database)
     \<lparr>nl_query = ''show me all users'', limit = Some 2\<rparr> ((users_tables_later, []), []) =
   (Inr \<lparr>sql_query = ''SELECT * FROM users LIMIT 50'',
         results = [[(''id'', PyInt 7), (''name'', PyStr ''eve'')]],
         row_count = 1\<rparr>,
    ((users_tables_later, [MetadataQuery, MetadataQuery, Statement ''SELECT * FROM users LIMIT 50'']),
     [ListTables, DescribeTable ''users'',
      ExecuteSafeQuery ''SELECT * FROM users LIMIT 50'' (Some 2)]))"
  by code_simp

lemma users_sample_run:
  "get_table_sample (spec_db_manager tables_database) ''users'' 2 ((users_tables, []), []) =
   (Inr \<lparr>sample_table_name = ''users'',
         sample_data = [[(''id'', PyInt 1), (''name'', PyStr ''ada'')],
                        [(''id'', PyInt 2), (''name'', PyStr ''bob'')]],
         sample_row_count = 2\<rparr>,
    ((users_tables, [Statement ''SELECT * FROM users LIMIT 2'']),
     [ExecuteSafeQuery ''SELECT * FROM users LIMIT 2'' (Some 2)]))"
  by code_simp

lemma users_fetch_run:
  "fetch_table_schemas (spec_db_manager tables_database) ((users_tables, []), []) =
   (Inr [(''users'', users_columns)],
    ((users_tables, [MetadataQuery, MetadataQuery]), [ListTables, DescribeTable ''users'']))"
  by code_simp

lemma users_later_fetch_run:
  "fetch_table_schemas (spec_db_manager tables_database) ((users_tables_later, []), []) =
   (Inr [(''users'', users_columns)],
    ((users_tables_later, [MetadataQuery, MetadataQuery]), [ListTables, DescribeTable ''users'']))"
  by code_simp

section \<open>Properties\<close>

text \<open>
  C9. When the converter failed to initialise (\<open>nl_converter\<close> is \<open>None\<close>), every call of the
  query handler fails at once with status 503, "NL to SQL converter not available": the
  database state is the one before the call and no call was made on the
  \<open>DatabaseManager\<close>.
\<close>

theorem converter_unavailable_503:
  "execute_nl_query None dbm request w =
     (Inl (HTTPException 503 ''NL to SQL converter not available''), w)"
  by (simp add: execute_nl_query_def)

text \<open>
  C1 (as amended). \<open>get_table_sample\<close> does not validate \<open>table_name\<close> against
  \<open>list_tables\<close>: for every \<open>table_name\<close> and limit it makes exactly one call on the
  \<open>DatabaseManager\<close>, \<open>execute_safe_query\<close>, and the SQL text of that call embeds
  \<open>table_name\<close> as it was given, between \<open>SELECT * FROM\<close> and \<open>LIMIT\<close>.
\<close>

theorem sample_embeds_table_name:
  "snd (snd (get_table_sample dbm name lim (d, log))) =
     log @ [ExecuteSafeQuery
              (''SELECT * FROM '' @ name @ '' LIMIT '' @ str_int (min lim 50))
              (Some (min lim 50))]"
  using sample_calls [of dbm name lim d log] by (simp add: sample_query_def)

text \<open>
  C1 as stated fails: for \<open>users; DROP TABLE users\<close> no \<open>list_tables\<close> call is made, the
  string is embedded in the statement handed to \<open>execute_safe_query\<close>, and the refusal of
  the executor comes back as status 500, not as \<open>InvalidIdentifierError\<close>.
\<close>

theorem sample_injection_counterexample:
  "get_table_sample (spec_db_manager tables_database) ''users; DROP TABLE users'' 5
     ((users_tables, []), []) =
   (Inl (HTTPException 500 ''Failed to get table sample: statement is not read-only''),
    ((users_tables, []),
     [ExecuteSafeQuery ''SELECT * FROM users; DROP TABLE users LIMIT 5'' (Some 5)]))"
  by (rule sample_injection_run)

text \<open>
  C2, on a request with limit 10000. \<open>execute_nl_query\<close> hands the limit of the request to
  \<open>execute_safe_query\<close> as it is, 10000, where \<open>get_table_sample\<close> hands it
  \<open>min(limit, 50)\<close>, 50: the handler of the query does not clamp.
\<close>

theorem query_limit_not_clamped:
  "snd (snd (execute_nl_query (Some conservative_converter) (spec_db_manager tables_database)
       \<lparr>nl_query = ''show me all numbers'', limit = Some 10000\<rparr> ((numbers_tables, []), []))) =
     [ListTables, DescribeTable ''numbers'',
      ExecuteSafeQuery ''SELECT * FROM numbers LIMIT 50'' (Some 10000)]
   \<and> snd (snd (get_table_sample (spec_db_manager tables_database) ''numbers'' 10000
       ((numbers_tables, []), []))) =
     [ExecuteSafeQuery ''SELECT * FROM numbers LIMIT 50'' (Some 50)]"
  by (simp add: numbers_run numbers_sample_run)

text \<open>
  C3. An SQL text that contains \<open>DROP TABLE\<close>, \<open>DELETE FROM\<close> or \<open>INSERT INTO\<close>, in
  either case of the letters, is refused by the executor of the specification with
  \<open>ForbiddenOperationError\<close>; the connection is as before: the data unchanged and nothing
  sent to the database.
\<close>

theorem forbidden_verbs_rejected:
  assumes "p = ''DROP TABLE'' \<or> p = ''DELETE FROM'' \<or> p = ''INSERT INTO''"
    and "sublist p sql \<or> sublist p (sql_upper sql)"
  shows "execute_safe_query_spec raw sql lim c =
     (Inl (PyException ''ForbiddenOperationError'' ''statement is not read-only''), c)"
proof -
  have up: "map upper_char p = p"
    using assms(1)
  proof (elim disjE)
    assume "p = ''DROP TABLE''"
    then show ?thesis by (simp only: upper_char_phrases)
  next
    assume "p = ''DELETE FROM''"
    then show ?thesis by (simp only: upper_char_phrases)
  next
    assume "p = ''INSERT INTO''"
    then show ?thesis by (simp only: upper_char_phrases)
  qed
  have in_upper: "sublist p (sql_upper sql)"
    using up assms(2) by (rule phrase_in_upper)
  have "\<exists>v \<in> set forbidden_verbs. sublist v p"
    using assms(1)
  proof (elim disjE)
    assume "p = ''DROP TABLE''"
    then have "sublist ''DROP'' p" by (simp add: sublist_code)
    then show ?thesis by (auto simp: forbidden_verbs_def)
  next
    assume "p = ''DELETE FROM''"
    then have "sublist ''DELETE'' p" by (simp add: sublist_code)
    then show ?thesis by (auto simp: forbidden_verbs_def)
  next
    assume "p = ''INSERT INTO''"
    then have "sublist ''INSERT'' p" by (simp add: sublist_code)
    then show ?thesis by (auto simp: forbidden_verbs_def)
  qed
  then obtain v where "v \<in> set forbidden_verbs" "sublist v p" by blast
  then have "has_forbidden_verb sql"
    using in_upper by (rule verb_of_phrase)
  then show ?thesis by (rule forbidden_rejected)
qed

text \<open>A \<open>DELETE FROM\<close>, and a \<open>drop table\<close> in lower case after a first statement.\<close>

theorem forbidden_verbs_rejected_witness:
  "execute_safe_query_spec tables_database ''DELETE FROM users'' (Some 5) (users_tables, []) =
     (Inl (PyException ''ForbiddenOperationError'' ''statement is not read-only''),
      (users_tables, []))
   \<and> execute_safe_query_spec tables_database ''select 1; drop table users'' None
       (users_tables, []) =
     (Inl (PyException ''ForbiddenOperationError'' ''statement is not read-only''),
      (users_tables, []))"
proof -
  have a: "sublist ''DELETE FROM'' ''DELETE FROM users''
      \<or> sublist ''DELETE FROM'' (sql_upper ''DELETE FROM users'')"
    by code_simp
  have b: "sublist ''DROP TABLE'' ''select 1; drop table users''
      \<or> sublist ''DROP TABLE'' (sql_upper ''select 1; drop table users'')"
    by code_simp
  show ?thesis
    using forbidden_verbs_rejected [of "''DELETE FROM''" "''DELETE FROM users''"
        tables_database "Some 5" "(users_tables, [])", OF _ a]
      forbidden_verbs_rejected [of "''DROP TABLE''" "''select 1; drop table users''"
        tables_database None "(users_tables, [])", OF _ b]
    by simp
qed

text \<open>
  C4 (as amended). The handlers forward the SQL text to \<open>execute_safe_query\<close> without
  looking for a second statement. The text \<open>get_table_sample\<close> builds is the only
  executor call it makes, and it holds a \<open>;\<close> followed by non-whitespace exactly when
  \<open>table_name\<close> contains a \<open>;\<close>. The text \<open>execute_nl_query\<close> sends is the converter's
  output, as returned.
\<close>

theorem sample_statement_forwarded:
  "(smuggles_statement (sample_query name lim) \<longleftrightarrow> CHR '';'' \<in> set name)
   \<and> executor_calls (snd (snd (get_table_sample dbm name lim (d, [])))) =
       [(sample_query name lim, Some (min lim 50))]
   \<and> (fetch_table_schemas dbm w = (Inr schemas, w2) \<and>
        convert_to_sql conv (nl_query request) schemas = Inr sql \<longrightarrow>
      snd (snd (execute_nl_query (Some conv) dbm request w)) =
        snd w2 @ [ExecuteSafeQuery sql (limit request)])"
proof (intro conjI impI)
  show "smuggles_statement (sample_query name lim) \<longleftrightarrow> CHR '';'' \<in> set name"
    by (rule sample_query_smuggles)
next
  show "executor_calls (snd (snd (get_table_sample dbm name lim (d, [])))) =
      [(sample_query name lim, Some (min lim 50))]"
    by (simp add: sample_calls)
next
  assume "fetch_table_schemas dbm w = (Inr schemas, w2) \<and>
      convert_to_sql conv (nl_query request) schemas = Inr sql"
  then show "snd (snd (execute_nl_query (Some conv) dbm request w)) =
      snd w2 @ [ExecuteSafeQuery sql (limit request)]"
    using nl_query_calls by blast
qed

text \<open>A table name with and without a \<open>;\<close>, and a query on the example database.\<close>

theorem sample_statement_forwarded_witness:
  "smuggles_statement (sample_query ''users; SELECT * FROM secrets'' 10)
   \<and> \<not> smuggles_statement (sample_query ''users'' 10)
   \<and> snd (snd (execute_nl_query (Some conservative_converter)
        (spec_db_manager tables_database)
        \<lparr>nl_query = ''show me all users'', limit = Some 2\<rparr> ((users_tables, []), []))) =
      [ListTables, DescribeTable ''users'',
       ExecuteSafeQuery ''SELECT * FROM users LIMIT 50'' (Some 2)]"
proof -
  let ?dbm = "spec_db_manager tables_database"
  let ?request = "\<lparr>nl_query = ''show me all users'', limit = Some 2\<rparr>"
  let ?w2 = "((users_tables, [MetadataQuery, MetadataQuery]),
      [ListTables, DescribeTable ''users''])"
  have conv: "convert_to_sql conservative_converter (nl_query ?request)
      [(''users'', users_columns)] = Inr ''SELECT * FROM users LIMIT 50''"
    by (simp add: conservative_converter_def)
  note with_semicolon = sample_statement_forwarded
    [of "''users; SELECT * FROM secrets''" 10 ?dbm "(users_tables, [])"
      "((users_tables, []), [])" "[(''users'', users_columns)]" ?w2
      conservative_converter ?request "''SELECT * FROM users LIMIT 50''"]
  note without = sample_statement_forwarded
    [of "''users''" 10 ?dbm "(users_tables, [])"
      "((users_tables, []), [])" "[(''users'', users_columns)]" ?w2
      conservative_converter ?request "''SELECT * FROM users LIMIT 50''"]
  have "CHR '';'' \<in> set ''users; SELECT * FROM secrets''" by code_simp
  with with_semicolon
  have a: "smuggles_statement (sample_query ''users; SELECT * FROM secrets'' 10)"
    by blast
  have "CHR '';'' \<notin> set ''users''" by code_simp
  with without have b: "\<not> smuggles_statement (sample_query ''users'' 10)"
    by blast
  from without users_fetch_run conv
  have "snd (snd (execute_nl_query (Some conservative_converter) ?dbm ?request
        ((users_tables, []), []))) = snd ?w2 @ [ExecuteSafeQuery ''SELECT * FROM users LIMIT 50''
          (limit ?request)]"
    by blast
  then have c: "snd (snd (execute_nl_query (Some conservative_converter) ?dbm ?request
        ((users_tables, []), []))) =
      [ListTables, DescribeTable ''users'',
       ExecuteSafeQuery ''SELECT * FROM users LIMIT 50'' (Some 2)]"
    by simp
  from a b c show ?thesis by blast
qed

text \<open>
  C4 as stated fails: for the table name \<open>users; SELECT * FROM secrets\<close> a text of two
  statements is sent to the executor; the refusal is the executor's.
\<close>

theorem second_statement_counterexample:
  "get_table_sample (spec_db_manager tables_database) ''users; SELECT * FROM secrets'' 10
     ((users_tables, []), []) =
   (Inl (HTTPException 500 ''Failed to get table sample: more than one statement''),
    ((users_tables, []),
     [ExecuteSafeQuery ''SELECT * FROM users; SELECT * FROM secrets LIMIT 10'' (Some 10)]))
   \<and> smuggles_statement ''SELECT * FROM users; SELECT * FROM secrets LIMIT 10''"
  by (rule conjI [OF sample_second_select_run smuggle_ex])

text \<open>
  C5 (as amended). When \<open>db_manager.describe_table\<close> raises an instance of \<open>Exception\<close>,
  one for a table that does not exist included, the handler answers with status 500 and
  the detail \<open>Failed to describe table:\<close> followed by the text of the exception; an
  exception that is a \<open>BaseException\<close> only leaves the handler as it is.
\<close>

theorem describe_error_is_500:
  assumes "dm_describe_table dbm name d = (Inl e, d')"
  shows "describe_table dbm name (d, log) =
     (Inl (if is_Exception e
           then HTTPException 500 (''Failed to describe table: '' @ exc_str e)
           else Unhandled e),
      (d', log @ [DescribeTable name]))"
  using assms
  by (simp add: describe_table_def await_describe_table_def except_Exception_def)

text \<open>A \<open>DatabaseManager\<close> that raises \<open>TableNotFoundError\<close>, and one that is cancelled.\<close>

theorem describe_error_is_500_witness:
  "describe_table (raising_db_manager (PyException ''TableNotFoundError'' ''no such table''))
     ''ghost'' ((), []) =
   (Inl (HTTPException 500 ''Failed to describe table: no such table''),
    ((), [DescribeTable ''ghost'']))
   \<and> describe_table (raising_db_manager (PyBaseException ''CancelledError'' []))
     ''users'' ((), []) =
   (Inl (Unhandled (PyBaseException ''CancelledError'' [])), ((), [DescribeTable ''users'']))"
proof -
  have a: "dm_describe_table
      (raising_db_manager (PyException ''TableNotFoundError'' ''no such table'')) ''ghost'' () =
    (Inl (PyException ''TableNotFoundError'' ''no such table''), ())"
    by (simp add: raising_db_manager_def)
  have b: "dm_describe_table
      (raising_db_manager (PyBaseException ''CancelledError'' [])) ''users'' () =
    (Inl (PyBaseException ''CancelledError'' []), ())"
    by (simp add: raising_db_manager_def)
  from describe_error_is_500 [OF a, of "[]"] describe_error_is_500 [OF b, of "[]"]
  show ?thesis by simp
qed

text \<open>
  C5 as stated fails: \<open>describe_table\<close> of \<open>ghost\<close>, over the introspector of the
  specification that raises \<open>TableNotFoundError\<close>, is answered with status 500, not with a
  "not found" response.
\<close>

theorem ghost_table_counterexample:
  "describe_table (spec_db_manager tables_database) ''ghost'' ((users_tables, []), []) =
   (Inl (HTTPException 500 ''Failed to describe table: table not found: ghost''),
    ((users_tables, [MetadataQuery]), [DescribeTable ''ghost'']))"
  by (rule ghost_run)



text \<open>
  C7. In every successful response of \<open>execute_nl_query\<close>, \<open>row_count\<close> is the length of
  \<open>results\<close>; in every successful response of \<open>get_table_sample\<close>, \<open>row_count\<close> is the
  length of \<open>sample_data\<close>.
\<close>

theorem row_count_is_length:
  "(execute_nl_query nl dbm request w = (Inr response, w') \<longrightarrow>
      row_count response = int (length (results response)))
   \<and> (get_table_sample dbm name lim w = (Inr sample, w'') \<longrightarrow>
      sample_row_count sample = int (length (sample_data sample)))"
proof (intro conjI impI)
  assume "execute_nl_query nl dbm request w = (Inr response, w')"
  from nl_query_success [OF this] show "row_count response = int (length (results response))"
    by auto
next
  assume "get_table_sample dbm name lim w = (Inr sample, w'')"
  from sample_success [OF this]
  show "sample_row_count sample = int (length (sample_data sample))"
    by auto
qed

text \<open>Both handlers on the example database, with limit 2.\<close>

theorem row_count_is_length_witness:
  "row_count \<lparr>sql_query = ''SELECT * FROM users LIMIT 50'',
         results = [[(''id'', PyInt 1), (''name'', PyStr ''ada'')],
                    [(''id'', PyInt 2), (''name'', PyStr ''bob'')]],
         row_count = 2\<rparr> = int (length [[(''id'', PyInt 1), (''name'', PyStr ''ada'')],
                    [(''id'', PyInt 2), (''name'', PyStr ''bob'')]])
   \<and> sample_row_count \<lparr>sample_table_name = ''users'',
         sample_data = [[(''id'', PyInt 1), (''name'', PyStr ''ada'')],
                        [(''id'', PyInt 2), (''name'', PyStr ''bob'')]],
         sample_row_count = 2\<rparr> = int (length [[(''id'', PyInt 1), (''name'', PyStr ''ada'')],
                        [(''id'', PyInt 2), (''name'', PyStr ''bob'')]])"
proof -
  note a = users_run and b = users_sample_run
  from row_count_is_length [where nl = "Some conservative_converter"
      and dbm = "spec_db_manager tables_database"
      and request = "\<lparr>nl_query = ''show me all users'', limit = Some 2\<rparr>"
      and w = "((users_tables, []), [])" and name = "''users''" and lim = 2] a b
  show ?thesis by simp
qed

text \<open>
  C8. Two calls of \<open>execute_nl_query\<close> with the same request, on two states of the world
  whose schema snapshot (what \<open>list_tables\<close> and \<open>describe_table\<close> give the handler) is
  the same, answer with the same \<open>sql_query\<close> when both succeed, whatever the data.
\<close>

theorem sql_query_deterministic:
  assumes "fst (fetch_table_schemas dbm w1) = fst (fetch_table_schemas dbm w2)"
    and "execute_nl_query nl dbm request w1 = (Inr r1, w1')"
    and "execute_nl_query nl dbm request w2 = (Inr r2, w2')"
  shows "sql_query r1 = sql_query r2"
proof -
  from nl_query_success [OF assms(2)] obtain conv1 schemas1 v1 where
    nl1: "nl = Some conv1" and f1: "fetch_table_schemas dbm w1 = (Inr schemas1, v1)"
    and c1: "convert_to_sql conv1 (nl_query request) schemas1 = Inr (sql_query r1)"
    by blast
  from nl_query_success [OF assms(3)] obtain conv2 schemas2 v2 where
    nl2: "nl = Some conv2" and f2: "fetch_table_schemas dbm w2 = (Inr schemas2, v2)"
    and c2: "convert_to_sql conv2 (nl_query request) schemas2 = Inr (sql_query r2)"
    by blast
  from nl1 nl2 have "conv1 = conv2" by simp
  moreover from assms(1) f1 f2 have "schemas1 = schemas2" by simp
  ultimately show ?thesis using c1 c2 by simp
qed

text \<open>The same schema over different data: the results differ, the SQL does not.\<close>

theorem sql_query_deterministic_witness:
  "sql_query \<lparr>sql_query = ''SELECT * FROM users LIMIT 50'',
         results = [[(''id'', PyInt 1), (''name'', PyStr ''ada'')],
                    [(''id'', PyInt 2), (''name'', PyStr ''bob'')]],
         row_count = 2\<rparr> =
   sql_query \<lparr>sql_query = ''SELECT * FROM users LIMIT 50'',
         results = [[(''id'', PyInt 7), (''name'', PyStr ''eve'')]],
         row_count = 1\<rparr>
   \<and> users_tables \<noteq> users_tables_later"
proof -
  have same: "fst (fetch_table_schemas (spec_db_manager tables_database) ((users_tables, []), []))
      = fst (fetch_table_schemas (spec_db_manager tables_database) ((users_tables_later, []), []))"
    by (simp add: users_fetch_run users_later_fetch_run)
  have differ: "users_tables \<noteq> users_tables_later"
    by (simp add: users_tables_def users_tables_later_def)
  from sql_query_deterministic [OF same users_run users_later_run] differ
  show ?thesis by simp
qed

text \<open>
  C10. In \<open>get_table_sample\<close>, a limit of at most 50, zero and negative values included,
  reaches the \<open>LIMIT\<close> clause of the SQL text and the executor unchanged.
\<close>

theorem sample_limit_unchanged:
  assumes "lim \<le> 50"
  shows "snd (snd (get_table_sample dbm name lim (d, log))) =
     log @ [ExecuteSafeQuery (''SELECT * FROM '' @ name @ '' LIMIT '' @ str_int lim) (Some lim)]"
  using assms sample_calls [of dbm name lim d log] by (simp add: sample_query_def)

text \<open>The limits \<open>-3\<close> and \<open>0\<close>.\<close>

theorem sample_limit_unchanged_witness:
  "snd (snd (get_table_sample (spec_db_manager tables_database) ''users'' (- 3)
       ((users_tables, []), []))) =
     [ExecuteSafeQuery ''SELECT * FROM users LIMIT -3'' (Some (- 3))]
   \<and> snd (snd (get_table_sample (spec_db_manager tables_database) ''users'' 0
       ((users_tables, []), []))) =
     [ExecuteSafeQuery ''SELECT * FROM users LIMIT 0'' (Some 0)]"
proof -
  have neg: "(- 3 :: int) \<le> 50" and zero: "(0 :: int) \<le> 50" by simp_all
  have "str_int (- 3) = ''-3''" and "str_int 0 = ''0''"
    by (simp_all add: str_int_def digit_char_def)
  with sample_limit_unchanged [OF neg, of "spec_db_manager tables_database" "''users''"
      "(users_tables, [])" "[]"]
    sample_limit_unchanged [OF zero, of "spec_db_manager tables_database" "''users''"
      "(users_tables, [])" "[]"]
  show ?thesis by simp
qed

end
